theory Spec2Isabelle
  imports Complex_Main
begin

section \<open>Data model\<close>

text \<open>
  The extension keeps one global \<^verbatim>\<open>pomodoroState\<close> object, one global timer handle
  \<^verbatim>\<open>currentTimer\<close> and a status bar item. Times are millisecond readings of
  \<^verbatim>\<open>Date.now()\<close>: integers far below \<open>2 ^ 53\<close>, on which the engine's double arithmetic
  is exact, so they are modelled as \<open>int\<close>.
\<close>

record PomodoroState =
  isActive :: bool
  isPaused :: bool
  startTime :: int
  pausedTime :: int
  totalDuration :: int
  intervalMin :: int
  intervalMax :: int
  restDuration :: int

definition initialState :: PomodoroState where
  "initialState =
     \<lparr> isActive = False, isPaused = False, startTime = 0, pausedTime = 0,
       totalDuration = 90 * 60 * 1000, intervalMin = 3 * 60 * 1000,
       intervalMax = 5 * 60 * 1000, restDuration = 10 * 1000 \<rparr>"

text \<open>
  What the status bar item shows: the fixed "not started" text, or the remaining minutes
  and seconds of a paused or a running session.
\<close>

datatype statusText = NotStarted | PausedText int int | RunningText int int

text \<open>The transient messages, progress toasts and the completion dialog the code emits.\<close>

datatype message =
    MsgStarted | MsgPaused | MsgResumed | MsgReset | MsgResting
  | ToastRestTime | ToastBreakOver | DialogCompleted

text \<open>
  The host's timer queue is part of the state. A rest trigger armed by
  \<^verbatim>\<open>scheduleNextBreak\<close> is a triple of its handle, the clock reading when it was armed
  and its delay. The other callbacks close over nothing but the global state, so the
  pending ones of each kind are counted: the one-second status ticks of
  \<^verbatim>\<open>updateStatusBar\<close>, the three-second timeouts of \<^verbatim>\<open>triggerRestBreak\<close>, the
  zero-delay timeouts of the break-over toast and the open completion dialogs. Each live
  interval of \<^verbatim>\<open>startRestCountdown\<close> owns a local \<^verbatim>\<open>countdown\<close> variable; the list
  \<open>countdowns\<close> holds them.
\<close>

record world =
  pomodoroState :: PomodoroState
  currentTimer :: "nat option"
  nextHandle :: nat
  restTimers :: "(nat \<times> int \<times> real) list"
  statusTicks :: nat
  restNotices :: nat
  countdowns :: "int list"
  breakOvers :: nat
  dialogs :: nat
  statusBar :: statusText
  messages :: "message list"

definition initialWorld :: world where
  "initialWorld =
     \<lparr> pomodoroState = initialState, currentTimer = None, nextHandle = 0,
       restTimers = [], statusTicks = 0, restNotices = 0, countdowns = [],
       breakOvers = 0, dialogs = 0, statusBar = NotStarted, messages = [] \<rparr>"

section \<open>Operations\<close>

text \<open>
  Every function that reads \<^verbatim>\<open>Date.now()\<close> takes the reading as \<open>now\<close>; the reads of one
  synchronous handler are taken to return the same millisecond.
\<close>

definition getElapsedTime :: "PomodoroState \<Rightarrow> int \<Rightarrow> int" where
  "getElapsedTime s now =
     (if isPaused s then pausedTime s else pausedTime s + (now - startTime s))"

text \<open>
  \<^verbatim>\<open>if (currentTimer) { clearTimeout(currentTimer); currentTimer = undefined; }\<close>:
  clearing a handle that has fired already removes nothing.
\<close>

definition clearCurrentTimer :: "world \<Rightarrow> world" where
  "clearCurrentTimer w =
     (case currentTimer w of
        None \<Rightarrow> w
      | Some h \<Rightarrow> w\<lparr> restTimers := filter (\<lambda>t. fst t \<noteq> h) (restTimers w),
                     currentTimer := None \<rparr>)"

text \<open>The remainder of JavaScript's \<^verbatim>\<open>%\<close> takes the sign of the dividend.\<close>

definition jsRem :: "int \<Rightarrow> int \<Rightarrow> int" where
  "jsRem a b = sgn a * (\<bar>a\<bar> mod \<bar>b\<bar>)"

definition minutesOf :: "int \<Rightarrow> int" where
  "minutesOf remaining = remaining div (1000 * 60)"

definition secondsOf :: "int \<Rightarrow> int" where
  "secondsOf remaining = jsRem remaining (1000 * 60) div 1000"

text \<open>
  \<^verbatim>\<open>updateStatusBar\<close> ends the session when no time remains, and \<^verbatim>\<open>endPomodoro\<close>
  calls \<^verbatim>\<open>updateStatusBar\<close> after it has cleared \<^verbatim>\<open>isActive\<close>: the two are mutually
  recursive.
\<close>

function updateStatusBar :: "world \<Rightarrow> int \<Rightarrow> world"
  and endPomodoro :: "world \<Rightarrow> int \<Rightarrow> world" where
  "updateStatusBar w now =
     (if \<not> isActive (pomodoroState w) then w\<lparr> statusBar := NotStarted \<rparr>
      else if isPaused (pomodoroState w) then
        w\<lparr> statusBar :=
             PausedText
               (minutesOf (totalDuration (pomodoroState w) - getElapsedTime (pomodoroState w) now))
               (secondsOf (totalDuration (pomodoroState w) - getElapsedTime (pomodoroState w) now)) \<rparr>
      else if totalDuration (pomodoroState w) - getElapsedTime (pomodoroState w) now \<le> 0 then
        endPomodoro w now
      else
        w\<lparr> statusBar :=
             RunningText
               (minutesOf (totalDuration (pomodoroState w) - getElapsedTime (pomodoroState w) now))
               (secondsOf (totalDuration (pomodoroState w) - getElapsedTime (pomodoroState w) now)),
           statusTicks := Suc (statusTicks w) \<rparr>)"
| "endPomodoro w now =
     (\<lambda>w'. w'\<lparr> dialogs := Suc (dialogs w'), messages := messages w' @ [DialogCompleted] \<rparr>)
       (updateStatusBar
          (clearCurrentTimer
             (w\<lparr> pomodoroState := (pomodoroState w)\<lparr> isActive := False, isPaused := False \<rparr> \<rparr>))
          now)"
  by pat_completeness auto
termination
  by (relation "measure (\<lambda>x. case x of
                    Inl (w, _) \<Rightarrow> if isActive (pomodoroState w) then 2 else 0
                  | Inr _ \<Rightarrow> 1)")
     (auto simp: clearCurrentTimer_def split: option.splits)

declare updateStatusBar.simps [simp del] endPomodoro.simps [simp del]

text \<open>
  The delay is computed in doubles: \<open>rnd\<close> is the rounding of the engine's arithmetic,
  applied after each of the three operations, and \<open>r\<close> is the value of
  \<^verbatim>\<open>Math.random()\<close>.
\<close>

definition randomInterval :: "(real \<Rightarrow> real) \<Rightarrow> PomodoroState \<Rightarrow> real \<Rightarrow> real" where
  "randomInterval rnd s r =
     rnd (rnd (r * rnd (real_of_int (intervalMax s) - real_of_int (intervalMin s)))
          + real_of_int (intervalMin s))"

definition scheduleNextBreak :: "(real \<Rightarrow> real) \<Rightarrow> world \<Rightarrow> int \<Rightarrow> real \<Rightarrow> world" where
  "scheduleNextBreak rnd w now r =
     (if \<not> isActive (pomodoroState w) \<or> isPaused (pomodoroState w) then w
      else if getElapsedTime (pomodoroState w) now \<ge> totalDuration (pomodoroState w) then
        endPomodoro w now
      else
        w\<lparr> currentTimer := Some (nextHandle w),
           restTimers :=
             restTimers w @ [(nextHandle w, now, randomInterval rnd (pomodoroState w) r)],
           nextHandle := Suc (nextHandle w) \<rparr>)"

definition startPomodoro :: "(real \<Rightarrow> real) \<Rightarrow> world \<Rightarrow> int \<Rightarrow> real \<Rightarrow> world" where
  "startPomodoro rnd w now r =
     (let w1 = w\<lparr> pomodoroState :=
                    (pomodoroState w)\<lparr> isActive := True, isPaused := False,
                                        startTime := now, pausedTime := 0 \<rparr> \<rparr>;
          w2 = updateStatusBar w1 now;
          w3 = scheduleNextBreak rnd w2 now r
      in w3\<lparr> messages := messages w3 @ [MsgStarted] \<rparr>)"

definition pausePomodoro :: "world \<Rightarrow> int \<Rightarrow> world" where
  "pausePomodoro w now =
     (if \<not> isActive (pomodoroState w) \<or> isPaused (pomodoroState w) then w
      else
        let w1 = w\<lparr> pomodoroState := (pomodoroState w)\<lparr> isPaused := True \<rparr> \<rparr>;
            w2 = w1\<lparr> pomodoroState :=
                       (pomodoroState w1)\<lparr> pausedTime :=
                          pausedTime (pomodoroState w1) + (now - startTime (pomodoroState w1)) \<rparr> \<rparr>;
            w3 = clearCurrentTimer w2;
            w4 = updateStatusBar w3 now
        in w4\<lparr> messages := messages w4 @ [MsgPaused] \<rparr>)"

definition resumePomodoro :: "(real \<Rightarrow> real) \<Rightarrow> world \<Rightarrow> int \<Rightarrow> real \<Rightarrow> world" where
  "resumePomodoro rnd w now r =
     (if \<not> isActive (pomodoroState w) \<or> \<not> isPaused (pomodoroState w) then w
      else
        let w1 = w\<lparr> pomodoroState :=
                      (pomodoroState w)\<lparr> isPaused := False, startTime := now \<rparr> \<rparr>;
            w2 = updateStatusBar w1 now;
            w3 = scheduleNextBreak rnd w2 now r
        in w3\<lparr> messages := messages w3 @ [MsgResumed] \<rparr>)"

definition stopPomodoro :: "world \<Rightarrow> int \<Rightarrow> world" where
  "stopPomodoro w now =
     updateStatusBar
       (clearCurrentTimer
          (w\<lparr> pomodoroState := (pomodoroState w)\<lparr> isActive := False, isPaused := False \<rparr> \<rparr>))
       now"

definition resetPomodoro :: "world \<Rightarrow> int \<Rightarrow> world" where
  "resetPomodoro w now =
     (let w1 = stopPomodoro w now;
          w2 = w1\<lparr> pomodoroState := (pomodoroState w1)\<lparr> startTime := 0, pausedTime := 0 \<rparr> \<rparr>;
          w3 = updateStatusBar w2 now
      in w3\<lparr> messages := messages w3 @ [MsgReset] \<rparr>)"

text \<open>
  \<^verbatim>\<open>triggerRestBreak\<close> shows the rest toast, whose callback starts the countdown three
  seconds later. \<^verbatim>\<open>playNotificationSound\<close> has an empty body.
\<close>

definition triggerRestBreak :: "world \<Rightarrow> world" where
  "triggerRestBreak w =
     (if \<not> isActive (pomodoroState w) \<or> isPaused (pomodoroState w) then w
      else w\<lparr> messages := messages w @ [ToastRestTime],
              restNotices := Suc (restNotices w) \<rparr>)"

definition startRestCountdown :: "world \<Rightarrow> world" where
  "startRestCountdown w = w\<lparr> countdowns := countdowns w @ [10] \<rparr>"

text \<open>
  One run of the interval callback of the \<open>i\<close>-th live countdown. \<^verbatim>\<open>clearInterval\<close>
  drops the countdown from the list.
\<close>

definition dropAt :: "nat \<Rightarrow> 'a list \<Rightarrow> 'a list" where
  "dropAt i xs = take i xs @ drop (Suc i) xs"

definition countdownTick :: "world \<Rightarrow> nat \<Rightarrow> world" where
  "countdownTick w i =
     (if \<not> isActive (pomodoroState w) \<or> isPaused (pomodoroState w) then
        w\<lparr> countdowns := dropAt i (countdowns w) \<rparr>
      else
        let w1 = w\<lparr> messages := messages w @ [MsgResting] \<rparr> in
        if countdowns w1 ! i > 0 then
          w1\<lparr> countdowns := (countdowns w1)[i := countdowns w1 ! i - 1] \<rparr>
        else
          w1\<lparr> countdowns := dropAt i (countdowns w1),
              messages := messages w1 @ [ToastBreakOver],
              breakOvers := Suc (breakOvers w1) \<rparr>)"

subsection \<open>Commands\<close>

definition toggleCommand :: "(real \<Rightarrow> real) \<Rightarrow> world \<Rightarrow> int \<Rightarrow> real \<Rightarrow> world" where
  "toggleCommand rnd w now r =
     (if isActive (pomodoroState w) \<and> \<not> isPaused (pomodoroState w) then pausePomodoro w now
      else if isPaused (pomodoroState w) then resumePomodoro rnd w now r
      else startPomodoro rnd w now r)"

definition restCommand :: "world \<Rightarrow> world" where
  "restCommand w =
     (if isActive (pomodoroState w) \<and> \<not> isPaused (pomodoroState w) then triggerRestBreak w
      else w)"

definition resetCommand :: "world \<Rightarrow> int \<Rightarrow> world" where
  "resetCommand w now = resetPomodoro w now"

subsection \<open>Timer callbacks\<close>

text \<open>The callback of the timeout armed by \<^verbatim>\<open>scheduleNextBreak\<close>.\<close>

definition restTimerFired :: "world \<Rightarrow> world" where
  "restTimerFired w =
     (if isActive (pomodoroState w) \<and> \<not> isPaused (pomodoroState w) then triggerRestBreak w
      else w)"

text \<open>The callback of the one-second timeout armed by \<^verbatim>\<open>updateStatusBar\<close>.\<close>

definition statusTickFired :: "world \<Rightarrow> int \<Rightarrow> world" where
  "statusTickFired w now =
     (if isActive (pomodoroState w) \<and> \<not> isPaused (pomodoroState w) then updateStatusBar w now
      else w)"

section \<open>The event system\<close>

text \<open>
  The extension is driven by the three commands, by the host firing a pending callback and
  by the user answering the completion dialog. An event comes with the clock reading
  \<open>now\<close> of its handler and with the value \<open>r\<close> that \<^verbatim>\<open>Math.random()\<close> returns if the
  handler asks for one. A callback can only fire while it is pending, and
  \<^verbatim>\<open>Math.random()\<close> returns a value in \<open>[0, 1)\<close>; otherwise the event is not enabled
  and \<open>step\<close> is \<open>None\<close>. The host may fire a pending callback at any later time, so
  no other condition on \<open>now\<close> is part of the model. \<^verbatim>\<open>deactivate\<close>, which the host
  calls once when it shuts the extension down, is not an event of the system.
\<close>

datatype event =
    Toggle | Rest | Reset
  | RestTimerFire nat | StatusTick | RestNoticeDone | CountdownTick nat | BreakOverDone
  | ChooseAgain | ChooseClose

fun handle :: "(real \<Rightarrow> real) \<Rightarrow> world \<Rightarrow> event \<Rightarrow> int \<Rightarrow> real \<Rightarrow> world option" where
  "handle rnd w Toggle now r = Some (toggleCommand rnd w now r)"
| "handle rnd w Rest now r = Some (restCommand w)"
| "handle rnd w Reset now r = Some (resetCommand w now)"
| "handle rnd w (RestTimerFire h) now r =
     (if h \<in> fst ` set (restTimers w) then
        Some (restTimerFired (w\<lparr> restTimers := filter (\<lambda>t. fst t \<noteq> h) (restTimers w) \<rparr>))
      else None)"
| "handle rnd w StatusTick now r =
     (if 0 < statusTicks w then
        Some (statusTickFired (w\<lparr> statusTicks := statusTicks w - 1 \<rparr>) now)
      else None)"
| "handle rnd w RestNoticeDone now r =
     (if 0 < restNotices w then
        Some (startRestCountdown (w\<lparr> restNotices := restNotices w - 1 \<rparr>))
      else None)"
| "handle rnd w (CountdownTick i) now r =
     (if i < length (countdowns w) then Some (countdownTick w i) else None)"
| "handle rnd w BreakOverDone now r =
     (if 0 < breakOvers w then
        Some (scheduleNextBreak rnd (w\<lparr> breakOvers := breakOvers w - 1 \<rparr>) now r)
      else None)"
| "handle rnd w ChooseAgain now r =
     (if 0 < dialogs w then Some (startPomodoro rnd (w\<lparr> dialogs := dialogs w - 1 \<rparr>) now r)
      else None)"
| "handle rnd w ChooseClose now r =
     (if 0 < dialogs w then Some (w\<lparr> dialogs := dialogs w - 1 \<rparr>) else None)"

definition step :: "(real \<Rightarrow> real) \<Rightarrow> world \<Rightarrow> event \<times> int \<times> real \<Rightarrow> world option" where
  "step rnd w e =
     (case e of (ev, now, r) \<Rightarrow> if 0 \<le> r \<and> r < 1 then handle rnd w ev now r else None)"

fun run :: "(real \<Rightarrow> real) \<Rightarrow> world \<Rightarrow> (event \<times> int \<times> real) list \<Rightarrow> world option" where
  "run rnd w [] = Some w"
| "run rnd w (e # es) = (case step rnd w e of None \<Rightarrow> None | Some w' \<Rightarrow> run rnd w' es)"

definition reachable :: "(real \<Rightarrow> real) \<Rightarrow> world \<Rightarrow> bool" where
  "reachable rnd w \<longleftrightarrow> (\<exists>es. run rnd initialWorld es = Some w)"

text \<open>
  The engine rounds to nearest: rounding is monotone and leaves every integer of
  magnitude up to \<open>2 ^ 53\<close> as it is.
\<close>

definition rounding :: "(real \<Rightarrow> real) \<Rightarrow> bool" where
  "rounding rnd \<longleftrightarrow>
     (\<forall>x y. x \<le> y \<longrightarrow> rnd x \<le> rnd y) \<and>
     (\<forall>n::int. \<bar>n\<bar> \<le> 2 ^ 53 \<longrightarrow> rnd (real_of_int n) = real_of_int n)"

text \<open>The three states of a session that the two flags tell apart.\<close>

definition running :: "world \<Rightarrow> bool" where
  "running w \<longleftrightarrow> isActive (pomodoroState w) \<and> \<not> isPaused (pomodoroState w)"

definition paused :: "world \<Rightarrow> bool" where
  "paused w \<longleftrightarrow> isActive (pomodoroState w) \<and> isPaused (pomodoroState w)"

definition idle :: "world \<Rightarrow> bool" where
  "idle w \<longleftrightarrow> \<not> isActive (pomodoroState w) \<and> \<not> isPaused (pomodoroState w)"

section \<open>Predicates and traces of the properties\<close>

text \<open>The invariant of the two flags: a paused session is an active one.\<close>

definition pausedImpliesActive :: "world \<Rightarrow> bool" where
  "pausedImpliesActive w \<longleftrightarrow> (isPaused (pomodoroState w) \<longrightarrow> isActive (pomodoroState w))"

text \<open>The four duration fields hold the values of the initial state.\<close>

definition wellConfigured :: "world \<Rightarrow> bool" where
  "wellConfigured w \<longleftrightarrow>
     totalDuration (pomodoroState w) = 5400000 \<and> intervalMin (pomodoroState w) = 180000 \<and>
     intervalMax (pomodoroState w) = 300000 \<and> restDuration (pomodoroState w) = 10000"

text \<open>Every pending rest trigger was armed with a delay between three and five minutes.\<close>

definition delaysInRange :: "world \<Rightarrow> bool" where
  "delaysInRange w \<longleftrightarrow>
     (\<forall>t \<in> set (restTimers w). 180000 \<le> snd (snd t) \<and> snd (snd t) \<le> 300000)"

text \<open>
  A sequence of lifecycle transitions, each with the clock reading of its call and the
  random value its call may draw.
\<close>

datatype lifecycle = Start | Pause | Resume

fun applyLifecycle :: "(real \<Rightarrow> real) \<Rightarrow> world \<Rightarrow> lifecycle \<times> int \<times> real \<Rightarrow> world" where
  "applyLifecycle rnd w (Start, now, r) = startPomodoro rnd w now r"
| "applyLifecycle rnd w (Pause, now, r) = pausePomodoro w now"
| "applyLifecycle rnd w (Resume, now, r) = resumePomodoro rnd w now r"

fun runLifecycle :: "(real \<Rightarrow> real) \<Rightarrow> world \<Rightarrow> (lifecycle \<times> int \<times> real) list \<Rightarrow> world" where
  "runLifecycle rnd w [] = w"
| "runLifecycle rnd w (e # es) = runLifecycle rnd (applyLifecycle rnd w e) es"

text \<open>
  The specification's measure of elapsed time, in its own words: the sum of the durations
  spent in \<open>Running\<close> since the latest start. Between two consecutive transitions, at
  \<open>prev\<close> and at \<open>t\<close>, the duration \<open>t - prev\<close> counts exactly when the state in between
  is \<open>Running\<close>; the last stretch runs from the last transition to \<open>now\<close>; a start opens
  a new session and the sum begins again at \<open>0\<close>. The state in between is the one the
  code is in after the earlier transition; only its two flags are read, never the code's
  bookkeeping of time (\<open>startTime\<close>, \<open>pausedTime\<close>).
\<close>

fun timeSpentRunning ::
  "(real \<Rightarrow> real) \<Rightarrow> world \<Rightarrow> int \<Rightarrow> int \<Rightarrow> (lifecycle \<times> int \<times> real) list \<Rightarrow> int \<Rightarrow> int" where
  "timeSpentRunning rnd w prev acc [] now = acc + (if running w then now - prev else 0)"
| "timeSpentRunning rnd w prev acc ((c, t, r) # es) now =
     timeSpentRunning rnd (applyLifecycle rnd w (c, t, r)) t
       (if c = Start then 0 else acc + (if running w then t - prev else 0)) es now"

text \<open>
  A session with a manual rest break. The toggle command starts the session at time
  \<open>0\<close> and arms the first rest trigger (with \<^verbatim>\<open>Math.random()\<close> returning \<open>1 / 2\<close>, a delay
  of four minutes). The rest command is given at \<open>1000\<close>; the timeout of its toast starts
  the countdown at \<open>4000\<close>; the interval of the countdown fires \<open>n\<close> times, at \<open>5000\<close>,
  \<open>6000\<close>, and so on. The status bar's tick fires every second throughout.
\<close>

definition restBreakTrace :: "nat \<Rightarrow> (event \<times> int \<times> real) list" where
  "restBreakTrace n =
     [(Toggle, 0, 1 / 2), (StatusTick, 1000, 0), (Rest, 1000, 0), (StatusTick, 2000, 0),
      (StatusTick, 3000, 0), (StatusTick, 4000, 0), (RestNoticeDone, 4000, 0)] @
     concat (map (\<lambda>k. [(StatusTick, 5000 + 1000 * int k, 0),
                        (CountdownTick 0, 5000 + 1000 * int k, 0)]) [0..<n])"

text \<open>
  The same session with a second manual rest break. The break-over toast of the first
  break arms the second rest trigger at \<open>15000\<close>. The rest command is given again at
  \<open>16000\<close>, the countdown starts at \<open>19000\<close> and its eleventh tick runs at \<open>30000\<close>;
  the zero-delay timeout of the second break-over toast is left pending.
\<close>

definition secondRestTrace :: "(event \<times> int \<times> real) list" where
  "secondRestTrace =
     restBreakTrace 11 @
     [(BreakOverDone, 15000, 1 / 2), (StatusTick, 16000, 0), (Rest, 16000, 0),
      (StatusTick, 17000, 0), (StatusTick, 18000, 0), (StatusTick, 19000, 0),
      (RestNoticeDone, 19000, 0)] @
     concat (map (\<lambda>k. [(StatusTick, 20000 + 1000 * int k, 0),
                        (CountdownTick 0, 20000 + 1000 * int k, 0)]) [0..<11])"

section \<open>Basic facts\<close>

lemma clearCurrentTimer_state [simp]:
  "pomodoroState (clearCurrentTimer w) = pomodoroState w"
  by (simp add: clearCurrentTimer_def split: option.splits)

lemma updateStatusBar_inactive:
  "\<not> isActive (pomodoroState w) \<Longrightarrow> updateStatusBar w now = w\<lparr> statusBar := NotStarted \<rparr>"
  by (subst updateStatusBar.simps) simp

text \<open>Both functions without the recursion.\<close>

lemma endPomodoro_eq:
  "endPomodoro w now =
     (clearCurrentTimer
        (w\<lparr> pomodoroState := (pomodoroState w)\<lparr> isActive := False, isPaused := False \<rparr> \<rparr>))
       \<lparr> statusBar := NotStarted, dialogs := Suc (dialogs w),
         messages := messages w @ [DialogCompleted] \<rparr>"
  by (simp add: endPomodoro.simps updateStatusBar_inactive clearCurrentTimer_def
           split: option.splits)

lemma updateStatusBar_eq:
  "updateStatusBar w now =
     (if \<not> isActive (pomodoroState w) then w\<lparr> statusBar := NotStarted \<rparr>
      else if isPaused (pomodoroState w) then
        w\<lparr> statusBar :=
             PausedText
               (minutesOf (totalDuration (pomodoroState w) - getElapsedTime (pomodoroState w) now))
               (secondsOf (totalDuration (pomodoroState w) - getElapsedTime (pomodoroState w) now)) \<rparr>
      else if totalDuration (pomodoroState w) \<le> getElapsedTime (pomodoroState w) now then
        (clearCurrentTimer
           (w\<lparr> pomodoroState := (pomodoroState w)\<lparr> isActive := False, isPaused := False \<rparr> \<rparr>))
          \<lparr> statusBar := NotStarted, dialogs := Suc (dialogs w),
            messages := messages w @ [DialogCompleted] \<rparr>
      else
        w\<lparr> statusBar :=
             RunningText
               (minutesOf (totalDuration (pomodoroState w) - getElapsedTime (pomodoroState w) now))
               (secondsOf (totalDuration (pomodoroState w) - getElapsedTime (pomodoroState w) now)),
           statusTicks := Suc (statusTicks w) \<rparr>)"
  by (subst updateStatusBar.simps) (simp add: endPomodoro_eq)

subsection \<open>How each operation changes the state record\<close>

lemma updateStatusBar_state:
  "pomodoroState (updateStatusBar w now) =
     (if running w \<and> totalDuration (pomodoroState w) \<le> getElapsedTime (pomodoroState w) now
      then (pomodoroState w)\<lparr> isActive := False, isPaused := False \<rparr>
      else pomodoroState w)"
  by (simp add: updateStatusBar_eq running_def)

lemma endPomodoro_state:
  "pomodoroState (endPomodoro w now) = (pomodoroState w)\<lparr> isActive := False, isPaused := False \<rparr>"
  by (simp add: endPomodoro_eq)

lemma scheduleNextBreak_state:
  "pomodoroState (scheduleNextBreak rnd w now r) =
     (if running w \<and> totalDuration (pomodoroState w) \<le> getElapsedTime (pomodoroState w) now
      then (pomodoroState w)\<lparr> isActive := False, isPaused := False \<rparr>
      else pomodoroState w)"
  by (simp add: scheduleNextBreak_def endPomodoro_state running_def)

lemma startPomodoro_state:
  "pomodoroState (startPomodoro rnd w now r) =
     (if totalDuration (pomodoroState w) \<le> 0
      then (pomodoroState w)\<lparr> isActive := False, isPaused := False, startTime := now, pausedTime := 0 \<rparr>
      else (pomodoroState w)\<lparr> isActive := True, isPaused := False, startTime := now, pausedTime := 0 \<rparr>)"
  by (simp add: startPomodoro_def Let_def scheduleNextBreak_state updateStatusBar_state
        running_def getElapsedTime_def)

lemma pausePomodoro_state:
  "pomodoroState (pausePomodoro w now) =
     (if running w
      then (pomodoroState w)\<lparr> isPaused := True,
              pausedTime := pausedTime (pomodoroState w) + (now - startTime (pomodoroState w)) \<rparr>
      else pomodoroState w)"
  by (simp add: pausePomodoro_def Let_def updateStatusBar_state running_def)

lemma resumePomodoro_state:
  "pomodoroState (resumePomodoro rnd w now r) =
     (if paused w then
        if totalDuration (pomodoroState w) \<le> pausedTime (pomodoroState w)
        then (pomodoroState w)\<lparr> isActive := False, isPaused := False, startTime := now \<rparr>
        else (pomodoroState w)\<lparr> isPaused := False, startTime := now \<rparr>
      else pomodoroState w)"
  by (simp add: resumePomodoro_def Let_def scheduleNextBreak_state updateStatusBar_state
        running_def paused_def getElapsedTime_def)

lemma stopPomodoro_state:
  "pomodoroState (stopPomodoro w now) = (pomodoroState w)\<lparr> isActive := False, isPaused := False \<rparr>"
  by (simp add: stopPomodoro_def updateStatusBar_state running_def)

lemma resetPomodoro_state:
  "pomodoroState (resetPomodoro w now) =
     (pomodoroState w)\<lparr> isActive := False, isPaused := False, startTime := 0, pausedTime := 0 \<rparr>"
  by (simp add: resetPomodoro_def Let_def stopPomodoro_state updateStatusBar_state running_def)

lemma triggerRestBreak_state: "pomodoroState (triggerRestBreak w) = pomodoroState w"
  by (simp add: triggerRestBreak_def)

lemma countdownTick_state: "pomodoroState (countdownTick w i) = pomodoroState w"
  by (simp add: countdownTick_def Let_def)

lemma clearCurrentTimer_timers:
  "restTimers (clearCurrentTimer w) = filter (\<lambda>t. Some (fst t) \<noteq> currentTimer w) (restTimers w)"
  by (cases "currentTimer w") (simp_all add: clearCurrentTimer_def)

lemma clearCurrentTimer_handle [simp]: "currentTimer (clearCurrentTimer w) = None"
  by (simp add: clearCurrentTimer_def split: option.splits)

lemma stopPomodoro_eq:
  "stopPomodoro w now =
     (clearCurrentTimer
        (w\<lparr> pomodoroState := (pomodoroState w)\<lparr> isActive := False, isPaused := False \<rparr> \<rparr>))
       \<lparr> statusBar := NotStarted \<rparr>"
  by (simp add: stopPomodoro_def updateStatusBar_inactive)

subsection \<open>Invariants of the event system\<close>

text \<open>A property of the start state that every step preserves holds after every run.\<close>

lemma run_invariant:
  assumes "run rnd w es = Some w'" and "P w"
    and "\<And>v e v'. P v \<Longrightarrow> step rnd v e = Some v' \<Longrightarrow> P v'"
  shows "P w'"
  using assms(1,2)
proof (induction es arbitrary: w)
  case Nil
  then show ?case by simp
next
  case (Cons e es)
  then obtain v where v: "step rnd w e = Some v" and rest: "run rnd v es = Some w'"
    by (auto split: option.splits)
  from assms(3)[OF Cons.prems(2) v] have "P v" .
  from Cons.IH[OF rest this] show ?case .
qed

lemma handle_pausedImpliesActive:
  "handle rnd w ev now r = Some w' \<Longrightarrow> pausedImpliesActive w \<Longrightarrow> pausedImpliesActive w'"
  by (cases ev)
     (auto simp: pausedImpliesActive_def toggleCommand_def restCommand_def resetCommand_def
        restTimerFired_def statusTickFired_def startRestCountdown_def
        startPomodoro_state pausePomodoro_state resumePomodoro_state resetPomodoro_state
        triggerRestBreak_state countdownTick_state scheduleNextBreak_state
        updateStatusBar_state running_def paused_def
       split: if_splits)

lemma step_pausedImpliesActive:
  "step rnd w e = Some w' \<Longrightarrow> pausedImpliesActive w \<Longrightarrow> pausedImpliesActive w'"
  by (cases e) (auto simp: step_def split: if_splits dest: handle_pausedImpliesActive)

lemma handle_wellConfigured:
  "handle rnd w ev now r = Some w' \<Longrightarrow> wellConfigured w \<Longrightarrow> wellConfigured w'"
  by (cases ev)
     (auto simp: wellConfigured_def toggleCommand_def restCommand_def resetCommand_def
        restTimerFired_def statusTickFired_def startRestCountdown_def
        startPomodoro_state pausePomodoro_state resumePomodoro_state resetPomodoro_state
        triggerRestBreak_state countdownTick_state scheduleNextBreak_state
        updateStatusBar_state
       split: if_splits)

lemma step_wellConfigured:
  "step rnd w e = Some w' \<Longrightarrow> wellConfigured w \<Longrightarrow> wellConfigured w'"
  by (cases e) (auto simp: step_def split: if_splits dest: handle_wellConfigured)

subsection \<open>The delay of a rest trigger\<close>

lemma randomInterval_bounds:
  assumes rnd: "rounding rnd"
    and cfg: "intervalMin s = 180000" "intervalMax s = 300000"
    and r: "0 \<le> r" "r < 1"
  shows "180000 \<le> randomInterval rnd s r \<and> randomInterval rnd s r \<le> 300000"
proof -
  have mono: "\<And>x y. x \<le> y \<Longrightarrow> rnd x \<le> rnd y"
    using rnd by (simp add: rounding_def)
  have fixed: "\<And>n::int. \<bar>n\<bar> \<le> 2 ^ 53 \<Longrightarrow> rnd (real_of_int n) = real_of_int n"
    using rnd by (simp add: rounding_def)
  have f0: "rnd 0 = 0" using fixed[of 0] by simp
  have f1: "rnd 120000 = 120000" using fixed[of 120000] by simp
  have f2: "rnd 180000 = 180000" using fixed[of 180000] by simp
  have f3: "rnd 300000 = 300000" using fixed[of 300000] by simp
  define p where "p = rnd (r * 120000)"
  have "0 \<le> r * 120000" "r * 120000 \<le> 120000"
    using r by simp_all
  then have "rnd 0 \<le> p" "p \<le> rnd 120000"
    unfolding p_def by (auto intro: mono)
  then have p: "0 \<le> p" "p \<le> 120000"
    by (simp_all add: f0 f1)
  then have "rnd 180000 \<le> rnd (p + 180000)" "rnd (p + 180000) \<le> rnd 300000"
    by (auto intro: mono)
  then have "180000 \<le> rnd (p + 180000)" "rnd (p + 180000) \<le> 300000"
    by (simp_all add: f2 f3)
  moreover have "randomInterval rnd s r = rnd (p + 180000)"
    by (simp add: randomInterval_def cfg p_def f1)
  ultimately show ?thesis by simp
qed

lemma delaysInRange_clearCurrentTimer:
  "delaysInRange w \<Longrightarrow> delaysInRange (clearCurrentTimer w)"
  by (simp add: delaysInRange_def clearCurrentTimer_timers)

lemma updateStatusBar_timers:
  "set (restTimers (updateStatusBar w now)) \<subseteq> set (restTimers w)"
  by (auto simp: updateStatusBar_eq clearCurrentTimer_timers)

lemma endPomodoro_timers:
  "set (restTimers (endPomodoro w now)) \<subseteq> set (restTimers w)"
  by (auto simp: endPomodoro_eq clearCurrentTimer_timers)

lemma scheduleNextBreak_timers:
  "set (restTimers (scheduleNextBreak rnd w now r)) \<subseteq>
     insert (nextHandle w, now, randomInterval rnd (pomodoroState w) r) (set (restTimers w))"
  using endPomodoro_timers[of w now] by (auto simp: scheduleNextBreak_def)

lemma delaysInRange_subset:
  "set (restTimers w') \<subseteq> set (restTimers w) \<Longrightarrow> delaysInRange w \<Longrightarrow> delaysInRange w'"
  by (auto simp: delaysInRange_def)

lemma delaysInRange_scheduleNextBreak:
  assumes "rounding rnd" "wellConfigured w" "0 \<le> r" "r < 1" "delaysInRange w"
  shows "delaysInRange (scheduleNextBreak rnd w now r)"
proof -
  have "180000 \<le> randomInterval rnd (pomodoroState w) r \<and>
        randomInterval rnd (pomodoroState w) r \<le> 300000"
    using assms(1-4) by (intro randomInterval_bounds) (simp_all add: wellConfigured_def)
  then show ?thesis
    using assms(5) scheduleNextBreak_timers[of rnd w now r]
    by (auto simp: delaysInRange_def)
qed

lemma delaysInRange_startPomodoro:
  assumes "rounding rnd" "wellConfigured w" "0 \<le> r" "r < 1" "delaysInRange w"
  shows "delaysInRange (startPomodoro rnd w now r)"
proof -
  define w1 where
    "w1 = w\<lparr> pomodoroState := (pomodoroState w)\<lparr> isActive := True, isPaused := False,
                                                 startTime := now, pausedTime := 0 \<rparr> \<rparr>"
  have "delaysInRange w1"
    using assms(5) by (simp add: delaysInRange_def w1_def)
  then have 1: "delaysInRange (updateStatusBar w1 now)"
    using updateStatusBar_timers by (rule delaysInRange_subset[rotated])
  have 2: "wellConfigured (updateStatusBar w1 now)"
    using assms(2) by (simp add: wellConfigured_def updateStatusBar_state w1_def)
  have "delaysInRange (scheduleNextBreak rnd (updateStatusBar w1 now) now r)"
    using assms(1) 2 assms(3,4) 1 by (rule delaysInRange_scheduleNextBreak)
  then show ?thesis
    by (simp add: startPomodoro_def Let_def w1_def delaysInRange_def)
qed

lemma delaysInRange_pausePomodoro:
  assumes "delaysInRange w"
  shows "delaysInRange (pausePomodoro w now)"
proof (cases "running w")
  case False
  then show ?thesis using assms by (simp add: pausePomodoro_def running_def)
next
  case True
  define w2 where
    "w2 = w\<lparr> pomodoroState := (pomodoroState w)\<lparr> isPaused := True,
              pausedTime := pausedTime (pomodoroState w) + (now - startTime (pomodoroState w)) \<rparr> \<rparr>"
  have "delaysInRange w2"
    using assms by (simp add: delaysInRange_def w2_def)
  then have "delaysInRange (clearCurrentTimer w2)"
    by (rule delaysInRange_clearCurrentTimer)
  then have "delaysInRange (updateStatusBar (clearCurrentTimer w2) now)"
    using updateStatusBar_timers by (rule delaysInRange_subset[rotated])
  then show ?thesis
    using True by (simp add: pausePomodoro_def Let_def w2_def delaysInRange_def running_def)
qed

lemma delaysInRange_resumePomodoro:
  assumes "rounding rnd" "wellConfigured w" "0 \<le> r" "r < 1" "delaysInRange w"
  shows "delaysInRange (resumePomodoro rnd w now r)"
proof (cases "paused w")
  case False
  then show ?thesis using assms(5) by (simp add: resumePomodoro_def paused_def)
next
  case True
  define w1 where
    "w1 = w\<lparr> pomodoroState := (pomodoroState w)\<lparr> isPaused := False, startTime := now \<rparr> \<rparr>"
  have "delaysInRange w1"
    using assms(5) by (simp add: delaysInRange_def w1_def)
  then have 1: "delaysInRange (updateStatusBar w1 now)"
    using updateStatusBar_timers by (rule delaysInRange_subset[rotated])
  have 2: "wellConfigured (updateStatusBar w1 now)"
    using assms(2) by (simp add: wellConfigured_def updateStatusBar_state w1_def)
  have "delaysInRange (scheduleNextBreak rnd (updateStatusBar w1 now) now r)"
    using assms(1) 2 assms(3,4) 1 by (rule delaysInRange_scheduleNextBreak)
  then show ?thesis
    using True by (simp add: resumePomodoro_def Let_def w1_def delaysInRange_def paused_def)
qed

lemma delaysInRange_resetPomodoro:
  assumes "delaysInRange w"
  shows "delaysInRange (resetPomodoro w now)"
proof -
  have "delaysInRange (stopPomodoro w now)"
    using assms by (simp add: delaysInRange_def stopPomodoro_eq clearCurrentTimer_timers)
  then have "delaysInRange
      ((stopPomodoro w now)\<lparr> pomodoroState :=
          (pomodoroState (stopPomodoro w now))\<lparr> startTime := 0, pausedTime := 0 \<rparr> \<rparr>)"
    by (simp add: delaysInRange_def)
  then have "delaysInRange (updateStatusBar
      ((stopPomodoro w now)\<lparr> pomodoroState :=
          (pomodoroState (stopPomodoro w now))\<lparr> startTime := 0, pausedTime := 0 \<rparr> \<rparr>) now)"
    using updateStatusBar_timers by (rule delaysInRange_subset[rotated])
  then show ?thesis
    by (simp add: resetPomodoro_def Let_def delaysInRange_def)
qed

lemma delaysInRange_triggerRestBreak:
  "delaysInRange w \<Longrightarrow> delaysInRange (triggerRestBreak w)"
  by (simp add: delaysInRange_def triggerRestBreak_def)

lemma delaysInRange_countdownTick:
  "delaysInRange w \<Longrightarrow> delaysInRange (countdownTick w i)"
  by (simp add: delaysInRange_def countdownTick_def Let_def)

lemma handle_delaysInRange:
  assumes "handle rnd w ev now r = Some w'"
    and "rounding rnd" "wellConfigured w" "0 \<le> r" "r < 1" "delaysInRange w"
  shows "delaysInRange w'"
proof (cases ev)
  case Toggle
  then show ?thesis
    using assms
    by (auto simp: toggleCommand_def delaysInRange_startPomodoro delaysInRange_pausePomodoro
          delaysInRange_resumePomodoro)
next
  case Rest
  then show ?thesis
    using assms by (auto simp: restCommand_def delaysInRange_triggerRestBreak)
next
  case Reset
  then show ?thesis
    using assms by (auto simp: resetCommand_def delaysInRange_resetPomodoro)
next
  case (RestTimerFire h)
  have "delaysInRange (w\<lparr> restTimers := filter (\<lambda>t. fst t \<noteq> h) (restTimers w) \<rparr>)"
    using assms(6) by (simp add: delaysInRange_def)
  then show ?thesis
    using assms(1) RestTimerFire
    by (auto simp: restTimerFired_def delaysInRange_triggerRestBreak split: if_splits)
next
  case StatusTick
  have "delaysInRange (w\<lparr> statusTicks := statusTicks w - 1 \<rparr>)"
    using assms(6) by (simp add: delaysInRange_def)
  then have "delaysInRange (updateStatusBar (w\<lparr> statusTicks := statusTicks w - 1 \<rparr>) now)"
    using updateStatusBar_timers by (rule delaysInRange_subset[rotated])
  then show ?thesis
    using assms(1,6) StatusTick
    by (auto simp: statusTickFired_def delaysInRange_def split: if_splits)
next
  case RestNoticeDone
  then show ?thesis
    using assms(1,6) by (auto simp: startRestCountdown_def delaysInRange_def split: if_splits)
next
  case (CountdownTick i)
  then show ?thesis
    using assms(1,6) by (auto simp: delaysInRange_countdownTick split: if_splits)
next
  case BreakOverDone
  have "delaysInRange (w\<lparr> breakOvers := breakOvers w - 1 \<rparr>)"
       "wellConfigured (w\<lparr> breakOvers := breakOvers w - 1 \<rparr>)"
    using assms(3,6) by (simp_all add: delaysInRange_def wellConfigured_def)
  then have "delaysInRange (scheduleNextBreak rnd (w\<lparr> breakOvers := breakOvers w - 1 \<rparr>) now r)"
    using assms(2,4,5) by (intro delaysInRange_scheduleNextBreak)
  then show ?thesis
    using assms(1) BreakOverDone by (auto split: if_splits)
next
  case ChooseAgain
  have "delaysInRange (w\<lparr> dialogs := dialogs w - 1 \<rparr>)"
       "wellConfigured (w\<lparr> dialogs := dialogs w - 1 \<rparr>)"
    using assms(3,6) by (simp_all add: delaysInRange_def wellConfigured_def)
  then have "delaysInRange (startPomodoro rnd (w\<lparr> dialogs := dialogs w - 1 \<rparr>) now r)"
    using assms(2,4,5) by (intro delaysInRange_startPomodoro)
  then show ?thesis
    using assms(1) ChooseAgain by (auto split: if_splits)
next
  case ChooseClose
  then show ?thesis
    using assms(1,6) by (auto simp: delaysInRange_def split: if_splits)
qed

lemma step_configured_delays:
  assumes "rounding rnd" "wellConfigured w \<and> delaysInRange w" "step rnd w e = Some w'"
  shows "wellConfigured w' \<and> delaysInRange w'"
proof -
  obtain ev now r where e: "e = (ev, now, r)" by (cases e)
  with assms(3) have r: "0 \<le> r" "r < 1" and h: "handle rnd w ev now r = Some w'"
    by (auto simp: step_def split: if_splits)
  show ?thesis
    using handle_wellConfigured[OF h] handle_delaysInRange[OF h assms(1) _ r] assms(2)
    by simp
qed

lemma reachable_configured_delays:
  assumes "rounding rnd" "reachable rnd w"
  shows "wellConfigured w \<and> delaysInRange w"
proof -
  obtain es where es: "run rnd initialWorld es = Some w"
    using assms(2) by (auto simp: reachable_def)
  have init: "wellConfigured initialWorld \<and> delaysInRange initialWorld"
    by (simp add: wellConfigured_def delaysInRange_def initialWorld_def initialState_def)
  show ?thesis
    using es init by (rule run_invariant) (rule step_configured_delays[OF assms(1)])
qed

subsection \<open>Elapsed time along a sequence of transitions\<close>

lemma elapsed_timeSpentRunning:
  assumes "0 < totalDuration (pomodoroState w)"
    and "isActive (pomodoroState w) \<longrightarrow> getElapsedTime (pomodoroState w) prev = acc"
    and "isActive (pomodoroState (runLifecycle rnd w tr))"
  shows "getElapsedTime (pomodoroState (runLifecycle rnd w tr)) now =
         timeSpentRunning rnd w prev acc tr now"
  using assms
proof (induction tr arbitrary: w prev acc)
  case Nil
  then show ?case by (auto simp: getElapsedTime_def running_def)
next
  case (Cons e tr)
  obtain c t r where e: "e = (c, t, r)" by (cases e)
  define w' where "w' = applyLifecycle rnd w e"
  define acc' where "acc' = (if c = Start then 0 else acc + (if running w then t - prev else 0))"
  have total: "0 < totalDuration (pomodoroState w')"
    using Cons.prems(1) unfolding w'_def e
    by (cases c)
       (simp_all add: startPomodoro_state pausePomodoro_state resumePomodoro_state)
  have inv: "isActive (pomodoroState w') \<longrightarrow> getElapsedTime (pomodoroState w') t = acc'"
    using Cons.prems(1,2) unfolding w'_def e acc'_def
    by (cases c)
       (auto simp: startPomodoro_state pausePomodoro_state resumePomodoro_state
          getElapsedTime_def running_def paused_def)
  have "isActive (pomodoroState (runLifecycle rnd w' tr))"
    using Cons.prems(3) by (simp add: w'_def)
  from Cons.IH[OF total inv this]
  show ?case by (simp add: w'_def acc'_def e)
qed

subsection \<open>The rest countdown and the arming of a trigger\<close>

lemma countdownTick_aborts:
  "\<not> running w \<Longrightarrow> countdownTick w i = w\<lparr> countdowns := dropAt i (countdowns w) \<rparr>"
  by (simp add: countdownTick_def running_def)

lemma countdownTick_counts:
  "running w \<Longrightarrow> 0 < countdowns w ! i \<Longrightarrow>
   countdownTick w i =
     w\<lparr> messages := messages w @ [MsgResting],
        countdowns := (countdowns w)[i := countdowns w ! i - 1] \<rparr>"
  by (simp add: countdownTick_def running_def Let_def)

lemma countdownTick_finishes:
  "running w \<Longrightarrow> countdowns w ! i \<le> 0 \<Longrightarrow>
   countdownTick w i =
     w\<lparr> messages := messages w @ [MsgResting, ToastBreakOver],
        countdowns := dropAt i (countdowns w),
        breakOvers := Suc (breakOvers w) \<rparr>"
  by (simp add: countdownTick_def running_def Let_def)

text \<open>Arming appends the new trigger and leaves every pending one in the queue.\<close>

lemma scheduleNextBreak_arms:
  "running w \<Longrightarrow> getElapsedTime (pomodoroState w) now < totalDuration (pomodoroState w) \<Longrightarrow>
   restTimers (scheduleNextBreak rnd w now r) =
     restTimers w @ [(nextHandle w, now, randomInterval rnd (pomodoroState w) r)]"
  by (simp add: scheduleNextBreak_def running_def)

subsection \<open>What completing and stopping cancel\<close>

text \<open>
  \<^verbatim>\<open>endPomodoro\<close> and \<^verbatim>\<open>stopPomodoro\<close> clear the two flags and cancel the one timer
  whose handle \<^verbatim>\<open>currentTimer\<close> holds; they leave the same state record, handle and
  queue. The queue is empty afterwards when no other trigger was pending.
\<close>

lemma scheduleNextBreak_completes:
  assumes "running w"
    and "totalDuration (pomodoroState w) \<le> getElapsedTime (pomodoroState w) now"
  shows "scheduleNextBreak rnd w now r = endPomodoro w now \<and>
         isActive (pomodoroState (scheduleNextBreak rnd w now r)) = False \<and>
         isPaused (pomodoroState (scheduleNextBreak rnd w now r)) = False \<and>
         currentTimer (scheduleNextBreak rnd w now r) = None \<and>
         restTimers (scheduleNextBreak rnd w now r) =
           filter (\<lambda>t. Some (fst t) \<noteq> currentTimer w) (restTimers w) \<and>
         nextHandle (scheduleNextBreak rnd w now r) = nextHandle w"
proof -
  have "scheduleNextBreak rnd w now r = endPomodoro w now"
    using assms by (simp add: scheduleNextBreak_def running_def)
  then show ?thesis
    by (simp add: endPomodoro_eq clearCurrentTimer_timers clearCurrentTimer_def
          split: option.splits)
qed

lemma stopPomodoro_banks_nothing:
  "isActive (pomodoroState (stopPomodoro w now)) = False \<and>
   isPaused (pomodoroState (stopPomodoro w now)) = False \<and>
   currentTimer (stopPomodoro w now) = None \<and>
   restTimers (stopPomodoro w now) =
     filter (\<lambda>t. Some (fst t) \<noteq> currentTimer w) (restTimers w) \<and>
   pausedTime (pomodoroState (stopPomodoro w now)) = pausedTime (pomodoroState w) \<and>
   startTime (pomodoroState (stopPomodoro w now)) = startTime (pomodoroState w)"
  by (simp add: stopPomodoro_eq clearCurrentTimer_timers)

lemma endPomodoro_as_stopPomodoro:
  "pomodoroState (endPomodoro w now) =
     (pomodoroState w)\<lparr> isActive := False, isPaused := False \<rparr> \<and>
   pomodoroState (endPomodoro w now) = pomodoroState (stopPomodoro w now) \<and>
   currentTimer (endPomodoro w now) = currentTimer (stopPomodoro w now) \<and>
   restTimers (endPomodoro w now) = restTimers (stopPomodoro w now) \<and>
   startTime (pomodoroState (endPomodoro w now)) = startTime (pomodoroState w) \<and>
   pausedTime (pomodoroState (endPomodoro w now)) = pausedTime (pomodoroState w)"
  by (simp add: stopPomodoro_eq endPomodoro_eq)

lemma clearCurrentTimer_cancels_all:
  "\<forall>t \<in> set (restTimers w). Some (fst t) = currentTimer w \<Longrightarrow>
   restTimers (clearCurrentTimer w) = []"
  by (simp add: clearCurrentTimer_timers filter_empty_conv)

lemma stopPomodoro_cancels_all:
  "\<forall>t \<in> set (restTimers w). Some (fst t) = currentTimer w \<Longrightarrow>
   restTimers (stopPomodoro w now) = [] \<and> restTimers (endPomodoro w now) = []"
  by (simp add: stopPomodoro_eq endPomodoro_eq clearCurrentTimer_timers filter_empty_conv)

subsection \<open>The session with a manual rest break, step by step\<close>

lemma run_restBreakTrace_10:
  "run id initialWorld (restBreakTrace 10) = Some
     \<lparr> pomodoroState =
         \<lparr> isActive = True, isPaused = False, startTime = 0, pausedTime = 0,
           totalDuration = 5400000, intervalMin = 180000, intervalMax = 300000,
           restDuration = 10000 \<rparr>,
       currentTimer = Some 0, nextHandle = 1, restTimers = [(0, 0, 240000)],
       statusTicks = 1, restNotices = 0, countdowns = [0], breakOvers = 0,
       dialogs = 0, statusBar = RunningText 89 46,
       messages =
         [MsgStarted, ToastRestTime, MsgResting, MsgResting, MsgResting,
          MsgResting, MsgResting, MsgResting, MsgResting, MsgResting,
          MsgResting, MsgResting] \<rparr>"
  by code_simp

lemma run_restBreakTrace_11:
  "run id initialWorld (restBreakTrace 11) = Some
     \<lparr> pomodoroState =
         \<lparr> isActive = True, isPaused = False, startTime = 0, pausedTime = 0,
           totalDuration = 5400000, intervalMin = 180000, intervalMax = 300000,
           restDuration = 10000 \<rparr>,
       currentTimer = Some 0, nextHandle = 1, restTimers = [(0, 0, 240000)],
       statusTicks = 1, restNotices = 0, countdowns = [], breakOvers = 1,
       dialogs = 0, statusBar = RunningText 89 45,
       messages =
         [MsgStarted, ToastRestTime, MsgResting, MsgResting, MsgResting,
          MsgResting, MsgResting, MsgResting, MsgResting, MsgResting,
          MsgResting, MsgResting, MsgResting, ToastBreakOver] \<rparr>"
  by code_simp

lemma run_restBreakTrace_rearmed:
  "run id initialWorld (restBreakTrace 11 @ [(BreakOverDone, 15000, 1 / 2)]) = Some
     \<lparr> pomodoroState =
         \<lparr> isActive = True, isPaused = False, startTime = 0, pausedTime = 0,
           totalDuration = 5400000, intervalMin = 180000, intervalMax = 300000,
           restDuration = 10000 \<rparr>,
       currentTimer = Some 1, nextHandle = 2,
       restTimers = [(0, 0, 240000), (1, 15000, 240000)],
       statusTicks = 1, restNotices = 0, countdowns = [], breakOvers = 0,
       dialogs = 0, statusBar = RunningText 89 45,
       messages =
         [MsgStarted, ToastRestTime, MsgResting, MsgResting, MsgResting,
          MsgResting, MsgResting, MsgResting, MsgResting, MsgResting,
          MsgResting, MsgResting, MsgResting, ToastBreakOver] \<rparr>"
  by code_simp

lemma run_restBreakTrace_paused:
  "run id initialWorld
     (restBreakTrace 11 @ [(BreakOverDone, 15000, 1 / 2), (Toggle, 16000, 0)]) = Some
     \<lparr> pomodoroState =
         \<lparr> isActive = True, isPaused = True, startTime = 0, pausedTime = 16000,
           totalDuration = 5400000, intervalMin = 180000, intervalMax = 300000,
           restDuration = 10000 \<rparr>,
       currentTimer = None, nextHandle = 2, restTimers = [(0, 0, 240000)],
       statusTicks = 1, restNotices = 0, countdowns = [], breakOvers = 0,
       dialogs = 0, statusBar = PausedText 89 44,
       messages =
         [MsgStarted, ToastRestTime, MsgResting, MsgResting, MsgResting,
          MsgResting, MsgResting, MsgResting, MsgResting, MsgResting,
          MsgResting, MsgResting, MsgResting, ToastBreakOver, MsgPaused] \<rparr>"
  by code_simp

lemma run_restBreakTrace_reset:
  "run id initialWorld
     (restBreakTrace 11 @
      [(BreakOverDone, 15000, 1 / 2), (Reset, 16000, 0), (StatusTick, 16000, 0)]) = Some
     \<lparr> pomodoroState =
         \<lparr> isActive = False, isPaused = False, startTime = 0, pausedTime = 0,
           totalDuration = 5400000, intervalMin = 180000, intervalMax = 300000,
           restDuration = 10000 \<rparr>,
       currentTimer = None, nextHandle = 2, restTimers = [(0, 0, 240000)],
       statusTicks = 0, restNotices = 0, countdowns = [], breakOvers = 0,
       dialogs = 0, statusBar = NotStarted,
       messages =
         [MsgStarted, ToastRestTime, MsgResting, MsgResting, MsgResting,
          MsgResting, MsgResting, MsgResting, MsgResting, MsgResting,
          MsgResting, MsgResting, MsgResting, ToastBreakOver, MsgReset] \<rparr>"
  by code_simp

lemma run_restBreakTrace_next_session:
  "run id initialWorld
     (restBreakTrace 11 @
      [(BreakOverDone, 15000, 1 / 2), (Reset, 16000, 0), (StatusTick, 16000, 0),
       (Toggle, 238000, 1 / 2), (StatusTick, 239000, 0), (StatusTick, 240000, 0),
       (RestTimerFire 0, 240000, 0)]) = Some
     \<lparr> pomodoroState =
         \<lparr> isActive = True, isPaused = False, startTime = 238000, pausedTime = 0,
           totalDuration = 5400000, intervalMin = 180000, intervalMax = 300000,
           restDuration = 10000 \<rparr>,
       currentTimer = Some 2, nextHandle = 3, restTimers = [(2, 238000, 240000)],
       statusTicks = 1, restNotices = 1, countdowns = [], breakOvers = 0,
       dialogs = 0, statusBar = RunningText 89 58,
       messages =
         [MsgStarted, ToastRestTime, MsgResting, MsgResting, MsgResting,
          MsgResting, MsgResting, MsgResting, MsgResting, MsgResting,
          MsgResting, MsgResting, MsgResting, ToastBreakOver, MsgReset,
          MsgStarted, ToastRestTime] \<rparr>"
  by code_simp

lemma run_restBreakTrace_ended:
  "run id initialWorld
     (restBreakTrace 11 @ [(BreakOverDone, 15000, 1 / 2), (StatusTick, 5400000, 0)]) = Some
     \<lparr> pomodoroState =
         \<lparr> isActive = False, isPaused = False, startTime = 0, pausedTime = 0,
           totalDuration = 5400000, intervalMin = 180000, intervalMax = 300000,
           restDuration = 10000 \<rparr>,
       currentTimer = None, nextHandle = 2, restTimers = [(0, 0, 240000)],
       statusTicks = 0, restNotices = 0, countdowns = [], breakOvers = 0,
       dialogs = 1, statusBar = NotStarted,
       messages =
         [MsgStarted, ToastRestTime, MsgResting, MsgResting, MsgResting,
          MsgResting, MsgResting, MsgResting, MsgResting, MsgResting,
          MsgResting, MsgResting, MsgResting, ToastBreakOver,
          DialogCompleted] \<rparr>"
  by code_simp

lemma run_secondRestTrace:
  "run id initialWorld secondRestTrace = Some
     \<lparr> pomodoroState =
         \<lparr> isActive = True, isPaused = False, startTime = 0, pausedTime = 0,
           totalDuration = 5400000, intervalMin = 180000, intervalMax = 300000,
           restDuration = 10000 \<rparr>,
       currentTimer = Some 1, nextHandle = 2,
       restTimers = [(0, 0, 240000), (1, 15000, 240000)],
       statusTicks = 1, restNotices = 0, countdowns = [], breakOvers = 1,
       dialogs = 0, statusBar = RunningText 89 30,
       messages =
         [MsgStarted, ToastRestTime, MsgResting, MsgResting, MsgResting,
          MsgResting, MsgResting, MsgResting, MsgResting, MsgResting,
          MsgResting, MsgResting, MsgResting, ToastBreakOver, ToastRestTime,
          MsgResting, MsgResting, MsgResting, MsgResting, MsgResting,
          MsgResting, MsgResting, MsgResting, MsgResting, MsgResting,
          MsgResting, ToastBreakOver] \<rparr>"
  by code_simp

lemma run_secondRestTrace_completed:
  "run id initialWorld (secondRestTrace @ [(BreakOverDone, 5400000, 0)]) = Some
     \<lparr> pomodoroState =
         \<lparr> isActive = False, isPaused = False, startTime = 0, pausedTime = 0,
           totalDuration = 5400000, intervalMin = 180000, intervalMax = 300000,
           restDuration = 10000 \<rparr>,
       currentTimer = None, nextHandle = 2, restTimers = [(0, 0, 240000)],
       statusTicks = 1, restNotices = 0, countdowns = [], breakOvers = 0,
       dialogs = 1, statusBar = NotStarted,
       messages =
         [MsgStarted, ToastRestTime, MsgResting, MsgResting, MsgResting,
          MsgResting, MsgResting, MsgResting, MsgResting, MsgResting,
          MsgResting, MsgResting, MsgResting, ToastBreakOver, ToastRestTime,
          MsgResting, MsgResting, MsgResting, MsgResting, MsgResting,
          MsgResting, MsgResting, MsgResting, MsgResting, MsgResting,
          MsgResting, ToastBreakOver, DialogCompleted] \<rparr>"
  by code_simp

section \<open>The claims\<close>

text \<open>
  C1 (amended). For every sequence of start, pause and resume transitions after which the
  session is still active (running or paused), whatever the clock readings, the elapsed
  time of \<^verbatim>\<open>getElapsedTime\<close> equals the time spent in \<open>Running\<close> since the latest
  start, so none of the time spent paused is counted. In the scenario, start at \<open>0\<close> and
  pause at \<open>60000\<close> give \<open>60000\<close>; resume at \<open>120000\<close> and pause at \<open>150000\<close> then give
  \<open>90000\<close>.
\<close>

theorem elapsed_is_time_spent_running:
  "(isActive (pomodoroState (runLifecycle rnd initialWorld tr)) \<longrightarrow>
      getElapsedTime (pomodoroState (runLifecycle rnd initialWorld tr)) now =
      timeSpentRunning rnd initialWorld 0 0 tr now) \<and>
   getElapsedTime (pomodoroState (runLifecycle rnd initialWorld
      [(Start, 0, r1), (Pause, 60000, r2)])) t1 = 60000 \<and>
   getElapsedTime (pomodoroState (runLifecycle rnd initialWorld
      [(Start, 0, r1), (Pause, 60000, r2), (Resume, 120000, r3), (Pause, 150000, r4)])) t2 = 90000"
proof (intro conjI impI)
  assume "isActive (pomodoroState (runLifecycle rnd initialWorld tr))"
  then show "getElapsedTime (pomodoroState (runLifecycle rnd initialWorld tr)) now =
      timeSpentRunning rnd initialWorld 0 0 tr now"
    by (intro elapsed_timeSpentRunning) (simp_all add: initialWorld_def initialState_def)
qed (simp_all add: startPomodoro_state pausePomodoro_state resumePomodoro_state
       getElapsedTime_def running_def paused_def initialWorld_def initialState_def)

theorem elapsed_is_time_spent_running_witness:
  "isActive (pomodoroState (runLifecycle id initialWorld
      [(Start, 0, 0), (Pause, 60000, 0), (Resume, 120000, 0)])) \<and>
   getElapsedTime (pomodoroState (runLifecycle id initialWorld
      [(Start, 0, 0), (Pause, 60000, 0), (Resume, 120000, 0)])) 150000 =
   timeSpentRunning id initialWorld 0 0
      [(Start, 0, 0), (Pause, 60000, 0), (Resume, 120000, 0)] 150000 \<and>
   timeSpentRunning id initialWorld 0 0
      [(Start, 0, 0), (Pause, 60000, 0), (Resume, 120000, 0)] 150000 = 90000"
  using elapsed_is_time_spent_running
          [of id "[(Start, 0, 0), (Pause, 60000, 0), (Resume, 120000, 0)]" 150000]
  by (simp add: startPomodoro_state pausePomodoro_state resumePomodoro_state
        running_def paused_def initialWorld_def initialState_def)

text \<open>
  The claim as it is written fails once the session has completed. A session is started
  at \<open>0\<close> and paused at \<open>5400500\<close>, before the status bar's next tick has seen that no
  time remains. The resume at \<open>5500000\<close> completes it: \<^verbatim>\<open>updateStatusBar\<close> finds
  \<open>pausedTime\<close> at \<open>totalDuration\<close> or more and calls \<^verbatim>\<open>endPomodoro\<close>. At \<open>6000000\<close>
  the elapsed time of \<^verbatim>\<open>getElapsedTime\<close> is \<open>5900500\<close>, of which only \<open>5400500\<close> were
  spent in \<open>Running\<close>; the state is not \<open>Running\<close> after the resume.
\<close>

theorem elapsed_grows_after_completion:
  "getElapsedTime (pomodoroState (runLifecycle id initialWorld
      [(Start, 0, 0), (Pause, 5400500, 0), (Resume, 5500000, 0)])) 6000000 = 5900500 \<and>
   timeSpentRunning id initialWorld 0 0
      [(Start, 0, 0), (Pause, 5400500, 0), (Resume, 5500000, 0)] 6000000 = 5400500 \<and>
   \<not> running (runLifecycle id initialWorld
      [(Start, 0, 0), (Pause, 5400500, 0), (Resume, 5500000, 0)])"
  by (simp add: startPomodoro_state pausePomodoro_state resumePomodoro_state
       getElapsedTime_def running_def paused_def initialWorld_def initialState_def)

text \<open>
  C2. Completion does not cancel every pending rest trigger. In \<open>secondRestTrace\<close> the
  session is running with triggers \<open>0\<close> and \<open>1\<close> armed, and the zero-delay timeout of
  the second break-over toast is pending. It runs at \<open>5400000\<close>, when the elapsed time
  is \<open>totalDuration\<close>: \<^verbatim>\<open>scheduleNextBreak\<close> calls \<^verbatim>\<open>endPomodoro\<close>, both flags are
  cleared, the dialog is shown and no trigger is armed, but only the timer of
  \<^verbatim>\<open>currentTimer\<close> (handle \<open>1\<close>) is cancelled. Trigger \<open>0\<close> stays armed in the
  completed session.
\<close>

theorem completion_leaves_older_trigger_armed:
  "map_option running (run id initialWorld secondRestTrace) = Some True \<and>
   map_option restTimers (run id initialWorld secondRestTrace) =
     Some [(0, 0, 240000), (1, 15000, 240000)] \<and>
   map_option breakOvers (run id initialWorld secondRestTrace) = Some 1 \<and>
   map_option (\<lambda>w. getElapsedTime (pomodoroState w) 5400000)
     (run id initialWorld secondRestTrace) = Some 5400000 \<and>
   map_option idle
     (run id initialWorld (secondRestTrace @ [(BreakOverDone, 5400000, 0)])) = Some True \<and>
   map_option dialogs
     (run id initialWorld (secondRestTrace @ [(BreakOverDone, 5400000, 0)])) = Some 1 \<and>
   map_option currentTimer
     (run id initialWorld (secondRestTrace @ [(BreakOverDone, 5400000, 0)])) = Some None \<and>
   map_option restTimers
     (run id initialWorld (secondRestTrace @ [(BreakOverDone, 5400000, 0)])) =
     Some [(0, 0, 240000)]"
  by (simp add: run_secondRestTrace run_secondRestTrace_completed running_def idle_def
        getElapsedTime_def)

text \<open>
  C3. After a manual rest break two rest triggers are armed. In the session of
  \<open>restBreakTrace\<close> the trigger armed at the start (handle \<open>0\<close>, due at \<open>240000\<close>) is
  still pending when the break-over toast calls \<^verbatim>\<open>scheduleNextBreak\<close> at \<open>15000\<close>,
  which arms handle \<open>1\<close> and cancels nothing. \<^verbatim>\<open>currentTimer\<close> then holds handle \<open>1\<close>
  only, so a pause at \<open>16000\<close> cancels that one and leaves handle \<open>0\<close> armed.
\<close>

theorem manual_rest_leaves_two_triggers_armed:
  "map_option restTimers
     (run id initialWorld (restBreakTrace 11 @ [(BreakOverDone, 15000, 1 / 2)])) =
     Some [(0, 0, 240000), (1, 15000, 240000)] \<and>
   map_option currentTimer
     (run id initialWorld (restBreakTrace 11 @ [(BreakOverDone, 15000, 1 / 2)])) =
     Some (Some 1) \<and>
   map_option running
     (run id initialWorld (restBreakTrace 11 @ [(BreakOverDone, 15000, 1 / 2)])) =
     Some True \<and>
   map_option restTimers
     (run id initialWorld
        (restBreakTrace 11 @ [(BreakOverDone, 15000, 1 / 2), (Toggle, 16000, 0)])) =
     Some [(0, 0, 240000)] \<and>
   map_option paused
     (run id initialWorld
        (restBreakTrace 11 @ [(BreakOverDone, 15000, 1 / 2), (Toggle, 16000, 0)])) =
     Some True"
  by (simp add: run_restBreakTrace_rearmed run_restBreakTrace_paused running_def paused_def)

text \<open>
  C4. With a rounding that is monotone and exact on integers, in every reachable state
  and for every value \<open>r\<close> of the random source in \<open>[0, 1)\<close>, the delay of
  \<^verbatim>\<open>scheduleNextBreak\<close> lies in \<open>[180000, 300000]\<close>, which is
  \<open>[intervalMin, intervalMax]\<close>; and every trigger that is armed in a reachable state
  has a delay in that range.
\<close>

theorem randomInterval_in_range:
  assumes "rounding rnd" and "reachable rnd w"
  shows "(0 \<le> r \<and> r < 1 \<longrightarrow>
            180000 \<le> randomInterval rnd (pomodoroState w) r \<and>
            randomInterval rnd (pomodoroState w) r \<le> 300000 \<and>
            real_of_int (intervalMin (pomodoroState w)) \<le> randomInterval rnd (pomodoroState w) r \<and>
            randomInterval rnd (pomodoroState w) r \<le> real_of_int (intervalMax (pomodoroState w))) \<and>
         (\<forall>t \<in> set (restTimers w). 180000 \<le> snd (snd t) \<and> snd (snd t) \<le> 300000)"
proof -
  have inv: "wellConfigured w" "delaysInRange w"
    using reachable_configured_delays[OF assms] by simp_all
  have "180000 \<le> randomInterval rnd (pomodoroState w) r \<and>
        randomInterval rnd (pomodoroState w) r \<le> 300000" if "0 \<le> r" "r < 1"
    using assms(1) inv(1) that by (intro randomInterval_bounds) (simp_all add: wellConfigured_def)
  then show ?thesis
    using inv by (simp add: wellConfigured_def delaysInRange_def)
qed

theorem randomInterval_in_range_witness:
  "rounding id \<and> reachable id (toggleCommand id initialWorld 0 (1 / 2)) \<and>
   180000 \<le> randomInterval id (pomodoroState (toggleCommand id initialWorld 0 (1 / 2))) (1 / 2) \<and>
   randomInterval id (pomodoroState (toggleCommand id initialWorld 0 (1 / 2))) (1 / 2) \<le> 300000"
proof -
  have rnd: "rounding id"
    by (simp add: rounding_def)
  have "run id initialWorld [(Toggle, 0, 1 / 2)] = Some (toggleCommand id initialWorld 0 (1 / 2))"
    by (simp add: step_def)
  then have re: "reachable id (toggleCommand id initialWorld 0 (1 / 2))"
    unfolding reachable_def by (rule exI)
  from randomInterval_in_range[OF rnd re, of "1 / 2"] rnd re
  show ?thesis by simp
qed

text \<open>
  C5 (amended). After \<^verbatim>\<open>resetPomodoro\<close>, from any state, the state is idle and both
  \<open>pausedTime\<close> and \<open>startTime\<close> are \<open>0\<close>; \<^verbatim>\<open>getElapsedTime\<close> then returns the clock
  reading it is given.
\<close>

theorem resetPomodoro_idle_and_zeroed:
  "idle (resetPomodoro w now) \<and>
   pausedTime (pomodoroState (resetPomodoro w now)) = 0 \<and>
   startTime (pomodoroState (resetPomodoro w now)) = 0 \<and>
   getElapsedTime (pomodoroState (resetPomodoro w now)) t = t"
  by (simp add: idle_def resetPomodoro_state getElapsedTime_def)

text \<open>
  The claim as it is written fails: a session started at \<open>1000\<close> and reset at \<open>2000\<close>
  has, by \<^verbatim>\<open>getElapsedTime\<close> at \<open>2000\<close>, an elapsed time of \<open>2000\<close>.
\<close>

theorem elapsed_after_reset_is_clock:
  "getElapsedTime
     (pomodoroState (resetPomodoro (startPomodoro id initialWorld 1000 0) 2000)) 2000 = 2000 \<and>
   getElapsedTime
     (pomodoroState (resetPomodoro (startPomodoro id initialWorld 1000 0) 2000)) 2000 \<noteq> 0"
  by (simp add: resetPomodoro_state getElapsedTime_def)

text \<open>
  C6. A paused session is active: this holds in the initial state, each of start, pause,
  resume, stop, reset and completion preserves it, and so it holds in every reachable
  state.
\<close>

theorem paused_implies_active:
  "pausedImpliesActive initialWorld \<and>
   (pausedImpliesActive w \<longrightarrow>
      pausedImpliesActive (startPomodoro rnd w now r) \<and>
      pausedImpliesActive (pausePomodoro w now) \<and>
      pausedImpliesActive (resumePomodoro rnd w now r) \<and>
      pausedImpliesActive (stopPomodoro w now) \<and>
      pausedImpliesActive (resetPomodoro w now) \<and>
      pausedImpliesActive (endPomodoro w now)) \<and>
   (reachable rnd w \<longrightarrow> pausedImpliesActive w)"
proof (intro conjI impI)
  show init: "pausedImpliesActive initialWorld"
    by (simp add: pausedImpliesActive_def initialWorld_def initialState_def)
  assume "reachable rnd w"
  then obtain es where "run rnd initialWorld es = Some w"
    by (auto simp: reachable_def)
  then show "pausedImpliesActive w"
    using init by (rule run_invariant) (rule step_pausedImpliesActive)
qed (simp_all add: pausedImpliesActive_def startPomodoro_state pausePomodoro_state
       resumePomodoro_state stopPomodoro_state resetPomodoro_state endPomodoro_state
       running_def paused_def)

theorem paused_implies_active_witness:
  "reachable id (toggleCommand id (toggleCommand id initialWorld 0 0) 1000 0) \<and>
   pausedImpliesActive (toggleCommand id (toggleCommand id initialWorld 0 0) 1000 0) \<and>
   isPaused (pomodoroState (toggleCommand id (toggleCommand id initialWorld 0 0) 1000 0))"
proof -
  have "run id initialWorld [(Toggle, 0, 0), (Toggle, 1000, 0)] =
          Some (toggleCommand id (toggleCommand id initialWorld 0 0) 1000 0)"
    by (simp add: step_def)
  then have re: "reachable id (toggleCommand id (toggleCommand id initialWorld 0 0) 1000 0)"
    unfolding reachable_def by (rule exI)
  have p: "isPaused (pomodoroState (toggleCommand id (toggleCommand id initialWorld 0 0) 1000 0))"
    by (simp add: toggleCommand_def startPomodoro_state pausePomodoro_state running_def
          initialWorld_def initialState_def)
  from paused_implies_active
         [of "toggleCommand id (toggleCommand id initialWorld 0 0) 1000 0" id 0 0] re p
  show ?thesis by simp
qed

text \<open>
  C7. \<^verbatim>\<open>pausePomodoro\<close> in a state that is not running, and \<^verbatim>\<open>resumePomodoro\<close> in a
  state that is not paused, return the whole state as it was: flags, times, timers,
  status bar and messages. Neither has an error result.
\<close>

theorem invalid_pause_resume_unchanged:
  "(\<not> running w \<longrightarrow> pausePomodoro w now = w) \<and>
   (\<not> paused w \<longrightarrow> resumePomodoro rnd w now r = w)"
  by (simp add: running_def paused_def pausePomodoro_def resumePomodoro_def)

theorem invalid_pause_resume_unchanged_witness:
  "\<not> running initialWorld \<and> pausePomodoro initialWorld 5 = initialWorld \<and>
   \<not> paused (startPomodoro id initialWorld 0 0) \<and>
   resumePomodoro id (startPomodoro id initialWorld 0 0) 5 0 = startPomodoro id initialWorld 0 0"
proof -
  have a: "\<not> running initialWorld"
    by (simp add: running_def initialWorld_def initialState_def)
  have b: "\<not> paused (startPomodoro id initialWorld 0 0)"
    by (simp add: paused_def startPomodoro_state initialWorld_def initialState_def)
  from invalid_pause_resume_unchanged[where w = initialWorld and now = 5]
       invalid_pause_resume_unchanged
         [where w = "startPomodoro id initialWorld 0 0" and now = 5 and rnd = id and r = 0] a b
  show ?thesis by blast
qed

text \<open>
  C8. The countdown needs eleven ticks, not ten. In the session of \<open>restBreakTrace\<close> the
  countdown starts at \<open>4000\<close>. After its tenth tick, at \<open>14000\<close>, its counter is \<open>0\<close>, it
  is still live and no break-over toast has been shown; the eleventh tick, at \<open>15000\<close>,
  shows the toast and queues the call of \<^verbatim>\<open>scheduleNextBreak\<close>.
\<close>

theorem countdown_takes_eleven_ticks:
  "map_option countdowns (run id initialWorld (restBreakTrace 10)) = Some [0] \<and>
   map_option (\<lambda>w. ToastBreakOver \<in> set (messages w))
     (run id initialWorld (restBreakTrace 10)) = Some False \<and>
   map_option breakOvers (run id initialWorld (restBreakTrace 10)) = Some 0 \<and>
   map_option countdowns (run id initialWorld (restBreakTrace 11)) = Some [] \<and>
   map_option (\<lambda>w. ToastBreakOver \<in> set (messages w))
     (run id initialWorld (restBreakTrace 11)) = Some True \<and>
   map_option breakOvers (run id initialWorld (restBreakTrace 11)) = Some 1"
  by (simp add: run_restBreakTrace_10 run_restBreakTrace_11)

text \<open>
  C9. \<^verbatim>\<open>stopPomodoro\<close> does not cancel every pending rest trigger. From the state
  with triggers \<open>0\<close> and \<open>1\<close> armed it clears both flags and cancels the timer of
  \<^verbatim>\<open>currentTimer\<close> (handle \<open>1\<close>), and trigger \<open>0\<close> stays armed. So it is after the
  reset command at \<open>16000\<close>, the only caller of \<^verbatim>\<open>stopPomodoro\<close>; and when the next
  session is started at \<open>238000\<close>, trigger \<open>0\<close> fires at \<open>240000\<close> and shows the rest
  toast two seconds into that session.
\<close>

theorem stop_leaves_older_trigger_armed:
  "map_option (\<lambda>w. idle (stopPomodoro w 16000))
     (run id initialWorld (restBreakTrace 11 @ [(BreakOverDone, 15000, 1 / 2)])) = Some True \<and>
   map_option (\<lambda>w. currentTimer (stopPomodoro w 16000))
     (run id initialWorld (restBreakTrace 11 @ [(BreakOverDone, 15000, 1 / 2)])) = Some None \<and>
   map_option (\<lambda>w. restTimers (stopPomodoro w 16000))
     (run id initialWorld (restBreakTrace 11 @ [(BreakOverDone, 15000, 1 / 2)])) =
     Some [(0, 0, 240000)] \<and>
   map_option restTimers
     (run id initialWorld
        (restBreakTrace 11 @
         [(BreakOverDone, 15000, 1 / 2), (Reset, 16000, 0), (StatusTick, 16000, 0)])) =
     Some [(0, 0, 240000)] \<and>
   map_option (\<lambda>w. (startTime (pomodoroState w), restNotices w, last (messages w)))
     (run id initialWorld
        (restBreakTrace 11 @
         [(BreakOverDone, 15000, 1 / 2), (Reset, 16000, 0), (StatusTick, 16000, 0),
          (Toggle, 238000, 1 / 2), (StatusTick, 239000, 0), (StatusTick, 240000, 0),
          (RestTimerFire 0, 240000, 0)])) =
     Some (238000, 1, ToastRestTime)"
  by (simp add: run_restBreakTrace_rearmed run_restBreakTrace_reset
        run_restBreakTrace_next_session stopPomodoro_eq clearCurrentTimer_def idle_def)

text \<open>
  C10. \<^verbatim>\<open>endPomodoro\<close> does not cancel every pending rest trigger. From the state
  with triggers \<open>0\<close> and \<open>1\<close> armed it clears both flags and cancels the timer of
  \<^verbatim>\<open>currentTimer\<close> (handle \<open>1\<close>), and trigger \<open>0\<close> stays armed. So it is when the
  status bar's tick runs at \<open>5400000\<close> in that state and \<^verbatim>\<open>updateStatusBar\<close> ends the
  session.
\<close>

theorem endPomodoro_leaves_older_trigger_armed:
  "map_option (\<lambda>w. idle (endPomodoro w 5400000))
     (run id initialWorld (restBreakTrace 11 @ [(BreakOverDone, 15000, 1 / 2)])) = Some True \<and>
   map_option (\<lambda>w. currentTimer (endPomodoro w 5400000))
     (run id initialWorld (restBreakTrace 11 @ [(BreakOverDone, 15000, 1 / 2)])) = Some None \<and>
   map_option (\<lambda>w. restTimers (endPomodoro w 5400000))
     (run id initialWorld (restBreakTrace 11 @ [(BreakOverDone, 15000, 1 / 2)])) =
     Some [(0, 0, 240000)] \<and>
   map_option (\<lambda>w. (idle w, dialogs w, currentTimer w, restTimers w))
     (run id initialWorld
        (restBreakTrace 11 @ [(BreakOverDone, 15000, 1 / 2), (StatusTick, 5400000, 0)])) =
     Some (True, 1, None, [(0, 0, 240000)])"
  by (simp add: run_restBreakTrace_rearmed run_restBreakTrace_ended endPomodoro_eq
        clearCurrentTimer_def idle_def)

end
